theory Spec2Isabelle
  imports Complex_Main
begin

section \<open>The invoice mapper (src/index.ts)\<close>

text \<open>
  The program reads the PDF files of a directory, asks a text-generation service for a
  structured record per file, and writes the records as rows of a CSV file. Its four
  functions are \<open>readInvoices\<close>, \<open>extractInvoiceData\<close>, \<open>writeToCSV\<close> and
  \<open>main\<close>. The calls that leave the program (the file system, the PDF text
  extractor, the generation call and the output stream) are fields of an environment
  record, so every theorem holds for whatever those calls answer.
\<close>

subsection \<open>JavaScript values and objects\<close>

text \<open>
  The values a parsed JSON answer can hold. A number is a finite JavaScript number;
  an object keeps its keys in insertion order.
\<close>

datatype jsvalue =
    JNull
  | JBool bool
  | JNum real
  | JStr string
  | JArr "jsvalue list"
  | JObj "(string \<times> jsvalue) list"

type_synonym jsobject = "(string \<times> jsvalue) list"

text \<open>A thrown value: an error with its message.\<close>

datatype js_error = JsError string

text \<open>Reading a property: \<open>None\<close> is JavaScript's \<open>undefined\<close>.\<close>

definition get_prop :: "jsobject \<Rightarrow> string \<Rightarrow> jsvalue option" where
  "get_prop obj k = map_of obj k"

text \<open>
  The object literal \<open>{...obj, k: v}\<close>: the properties of \<open>obj\<close> in their order, with
  \<open>k\<close> set to \<open>v\<close>: in place when \<open>obj\<close> has the key, at the end otherwise.
\<close>

fun spread_with :: "jsobject \<Rightarrow> string \<Rightarrow> jsvalue \<Rightarrow> jsobject" where
  "spread_with [] k v = [(k, v)]"
| "spread_with ((k', v') # rest) k v =
     (if k' = k then (k, v) # rest else (k', v') # spread_with rest k v)"

text \<open>What \<open>x || y\<close> tests: \<open>null\<close>, \<open>false\<close>, \<open>0\<close> and the empty string are falsy.\<close>

fun truthy :: "jsvalue \<Rightarrow> bool" where
  "truthy JNull = False"
| "truthy (JBool b) = b"
| "truthy (JNum n) = (n \<noteq> 0)"
| "truthy (JStr s) = (s \<noteq> [])"
| "truthy (JArr xs) = True"
| "truthy (JObj kvs) = True"

subsection \<open>The schema of extractInvoiceData\<close>

text \<open>
  \<open>z.object({...})\<close> of the source, as data: each field has a name, the type
  \<open>z.string()\<close> or \<open>z.number()\<close>, and the text given to \<open>.describe(...)\<close>. A
  description is a hint for the generation service, it checks nothing.
\<close>

datatype ztype = ZString | ZNumber

record zfield =
  fname :: string
  ftype :: ztype
  describe :: string

definition invoiceSchema :: "zfield list" where
  "invoiceSchema =
    [\<lparr>fname = ''invoiceNumber'', ftype = ZString,
      describe = ''The unique identifier for this invoice, avoid special characters like # and * and ''
                   @ [CHR 0x5C, CHR ''x'']\<rparr>,
     \<lparr>fname = ''issueDate'', ftype = ZString,
      describe = ''The date when the invoice was issued''\<rparr>,
     \<lparr>fname = ''companyName'', ftype = ZString,
      describe = ''The name of the company that issued the invoice''\<rparr>,
     \<lparr>fname = ''companyAddress'', ftype = ZString,
      describe = ''The address of the company that issued the invoice''\<rparr>,
     \<lparr>fname = ''dueDate'', ftype = ZString,
      describe = ''The date by which the invoice should be paid''\<rparr>,
     \<lparr>fname = ''totalAmount'', ftype = ZNumber,
      describe = ''The total amount due on the invoice''\<rparr>,
     \<lparr>fname = ''currency'', ftype = ZString,
      describe = ''The currency used in the invoice''\<rparr>,
     \<lparr>fname = ''customerName'', ftype = ZString,
      describe = ''The name of the customer or company being billed''\<rparr>,
     \<lparr>fname = ''customerAddress'', ftype = ZString,
      describe = ''The billing address of the customer''\<rparr>,
     \<lparr>fname = ''taxes'', ftype = ZNumber,
      describe = ''The total amount of taxes applied to the invoice, just return 0 if no taxes are applied''\<rparr>]"

text \<open>What the two schema types accept.\<close>

fun has_type :: "ztype \<Rightarrow> jsvalue \<Rightarrow> bool" where
  "has_type ZString (JStr s) = True"
| "has_type ZNumber (JNum n) = True"
| "has_type t v = False"

text \<open>A field is satisfied when the object has the property and its value has the type.\<close>

definition field_ok :: "jsobject \<Rightarrow> zfield \<Rightarrow> bool" where
  "field_ok obj f = (case get_prop obj (fname f) of None \<Rightarrow> False | Some v \<Rightarrow> has_type (ftype f) v)"

text \<open>An object conforms to a schema when every declared field is satisfied.\<close>

definition conforms :: "zfield list \<Rightarrow> jsobject \<Rightarrow> bool" where
  "conforms sch obj = list_all (field_ok obj) sch"

subsection \<open>The environment\<close>

text \<open>The argument of \<open>generateObject\<close>, with the fields the source sets.\<close>

record gen_request =
  model :: string
  structuredOutputs :: bool
  mode :: string
  maxRetries :: nat
  system :: string
  schema :: "zfield list"
  prompt :: string

text \<open>
  The calls into libraries and the operating system. \<open>generateObject\<close> takes the number
  of the call within the run, so two calls with the same request may answer differently.
  \<open>createWriteStream p\<close> is \<open>None\<close> when the stream at \<open>p\<close> finishes and \<open>Some e\<close>
  when it emits the error \<open>e\<close>.
\<close>

record env =
  dirname :: string
  path_join :: "string list \<Rightarrow> string"
  readdir :: "string \<Rightarrow> js_error + string list"
  readFile :: "string \<Rightarrow> js_error + string"
  pdf :: "string \<Rightarrow> js_error + string"
  generateObject :: "nat \<Rightarrow> gen_request \<Rightarrow> js_error + jsobject"
  createWriteStream :: "string \<Rightarrow> js_error option"

text \<open>The lines the program prints, one constructor per message of the source.\<close>

datatype log_entry =
    ParsedInvoices nat
  | ProcessingInvoice string
  | ExtractedInvoiceData jsobject
  | ErrorExtracting js_error
  | CsvWritten string
  | ErrorLog js_error

subsection \<open>readInvoices\<close>

text \<open>
  \<open>path.extname\<close> on a file name without a separator, as \<open>readdir\<close> returns them: the
  suffix from the last dot on, and the empty string when there is no dot, when the last
  dot is the first character, or when the name is \<open>..\<close>.
\<close>

fun lastDot :: "string \<Rightarrow> nat option" where
  "lastDot [] = None"
| "lastDot (c # cs) =
     (case lastDot cs of
        Some i \<Rightarrow> Some (Suc i)
      | None \<Rightarrow> if c = CHR ''.'' then Some 0 else None)"

definition extname :: "string \<Rightarrow> string" where
  "extname p =
     (case lastDot p of
        None \<Rightarrow> []
      | Some startDot \<Rightarrow> if startDot = 0 \<or> p = ''..'' then [] else drop startDot p)"

text \<open>
  \<open>toLowerCase\<close> on the letters A to Z; the other characters stay. The comparison
  with \<open>.pdf\<close> sees no more of it.
\<close>

definition lower_char :: "char \<Rightarrow> char" where
  "lower_char c =
     (case map_of (zip ''ABCDEFGHIJKLMNOPQRSTUVWXYZ'' ''abcdefghijklmnopqrstuvwxyz'') c of
        None \<Rightarrow> c
      | Some l \<Rightarrow> l)"

definition toLowerCase :: "string \<Rightarrow> string" where
  "toLowerCase s = map lower_char s"

text \<open>The predicate of \<open>files.filter\<close>.\<close>

definition is_pdf :: "string \<Rightarrow> bool" where
  "is_pdf file = (toLowerCase (extname file) = ''.pdf'')"

record invoice =
  content :: string
  fileName :: string
  filePath :: string

definition invoiceDir :: "env \<Rightarrow> string" where
  "invoiceDir e = path_join e [dirname e, ''..'', ''invoices'']"

text \<open>
  The loop over \<open>pdfFiles\<close>: each file is read and parsed in turn and pushed on
  \<open>invoiceData\<close>; the first read or parse that throws ends the function with that error.
\<close>

fun read_loop :: "env \<Rightarrow> string list \<Rightarrow> invoice list \<Rightarrow> js_error + invoice list" where
  "read_loop e [] invoiceData = Inr invoiceData"
| "read_loop e (file # rest) invoiceData =
     (case readFile e (path_join e [invoiceDir e, file]) of
        Inl err \<Rightarrow> Inl err
      | Inr dataBuffer \<Rightarrow>
          (case pdf e dataBuffer of
             Inl err \<Rightarrow> Inl err
           | Inr text \<Rightarrow>
               read_loop e rest
                 (invoiceData @
                    [\<lparr>content = text, fileName = file,
                      filePath = path_join e [invoiceDir e, file]\<rparr>])))"

definition readInvoices :: "env \<Rightarrow> js_error + invoice list" where
  "readInvoices e =
     (case readdir e (invoiceDir e) of
        Inl err \<Rightarrow> Inl err
      | Inr files \<Rightarrow> read_loop e (filter is_pdf files) [])"

subsection \<open>extractInvoiceData\<close>

definition request :: "string \<Rightarrow> gen_request" where
  "request invoiceContent =
     \<lparr>model = ''gpt-4o-2024-08-06'',
      structuredOutputs = True,
      mode = ''json'',
      maxRetries = 8,
      system = ''You are a helpful assistant that extracts detailed information from invoice contents. Focus on quality and extract detailed information to create an accurate representation of the invoice data.'',
      schema = invoiceSchema,
      prompt = ''Extract the following information from this invoice content: '' @ invoiceContent\<rparr>"

text \<open>
  The function returns the object of the generation call; when the call throws, it
  prints the error and throws the same error again. The second component is what it
  printed. \<open>i\<close> is the number of the call within the run.
\<close>

definition extractInvoiceData :: "env \<Rightarrow> nat \<Rightarrow> string \<Rightarrow> (js_error + jsobject) \<times> log_entry list" where
  "extractInvoiceData e i invoiceContent =
     (case generateObject e i (request invoiceContent) of
        Inr object \<Rightarrow> (Inr object, [])
      | Inl error \<Rightarrow> (Inl error, [ErrorExtracting error]))"

subsection \<open>writeToCSV\<close>

text \<open>
  The options given to \<open>stringify\<close>. With \<open>columns\<close>, the stringifier writes for each
  record the values of these properties in this order; a cell is \<open>None\<close> when the
  record has no such property. With \<open>header\<close>, it writes the column names first. The
  cells are kept as values: their encoding as text is the library's.
\<close>

record stringify_options =
  header :: bool
  columns :: "string list"

type_synonym csv_row = "jsvalue option list"

definition csv_options :: stringify_options where
  "csv_options =
     \<lparr>header = False,
      columns = [''fileName'', ''invoiceNumber'', ''issueDate'', ''companyName'',
                 ''companyAddress'', ''dueDate'', ''totalAmount'', ''currency'',
                 ''customerName'', ''customerAddress'', ''taxes'']\<rparr>"

definition stringify_row :: "stringify_options \<Rightarrow> jsobject \<Rightarrow> csv_row" where
  "stringify_row opts record = map (get_prop record) (columns opts)"

definition stringify :: "stringify_options \<Rightarrow> jsobject list \<Rightarrow> csv_row list" where
  "stringify opts records =
     (if header opts then [map (\<lambda>c. Some (JStr c)) (columns opts)] else [])
     @ map (stringify_row opts) records"

text \<open>\<open>row.fileName || ""\<close>\<close>

definition fileName_or_empty :: "jsobject \<Rightarrow> jsvalue" where
  "fileName_or_empty row =
     (case get_prop row ''fileName'' of
        None \<Rightarrow> JStr ''''
      | Some v \<Rightarrow> if truthy v then v else JStr '''')"

definition csvRow :: "jsobject \<Rightarrow> jsobject" where
  "csvRow row = spread_with row ''fileName'' (fileName_or_empty row)"

text \<open>
  The rows go through the stringifier into the stream at \<open>outputPath\<close>; the promise
  resolves when the stream finishes and rejects with the stream's error.
\<close>

definition writeToCSV :: "env \<Rightarrow> jsobject list \<Rightarrow> string \<Rightarrow> js_error + csv_row list" where
  "writeToCSV e data outputPath =
     (case createWriteStream e outputPath of
        Some err \<Rightarrow> Inl err
      | None \<Rightarrow> Inr (stringify csv_options (map csvRow data)))"

subsection \<open>main\<close>

text \<open>
  The loop over \<open>invoiceContents\<close>, with \<open>extractedData\<close> and the printed lines as the
  state. A document whose extraction throws is printed and skipped.
\<close>

fun extract_loop ::
  "env \<Rightarrow> nat \<Rightarrow> invoice list \<Rightarrow> jsobject list \<Rightarrow> log_entry list \<Rightarrow> jsobject list \<times> log_entry list" where
  "extract_loop e i [] extractedData out = (extractedData, out)"
| "extract_loop e i (invoice # rest) extractedData out =
     (case extractInvoiceData e i (content invoice) of
        (Inr data, printed) \<Rightarrow>
          extract_loop e (Suc i) rest
            (extractedData @ [spread_with data ''fileName'' (JStr (fileName invoice))])
            (out @ [ProcessingInvoice (fileName invoice)] @ printed @ [ExtractedInvoiceData data])
      | (Inl error, printed) \<Rightarrow>
          extract_loop e (Suc i) rest extractedData
            (out @ [ProcessingInvoice (fileName invoice)] @ printed @ [ErrorExtracting error]))"

text \<open>
  What a run leaves behind: the printed lines, the argument of the call of
  \<open>writeToCSV\<close> when the run reached it, and the output file (its path and rows) when
  the stream finished.
\<close>

record run =
  console :: "log_entry list"
  handed :: "jsobject list option"
  csv_file :: "(string \<times> csv_row list) option"

definition outputPath :: "env \<Rightarrow> string" where
  "outputPath e = path_join e [dirname e, ''..'', ''invoice_data.csv'']"

definition main :: "env \<Rightarrow> run" where
  "main e =
     (case readInvoices e of
        Inl error \<Rightarrow> \<lparr>console = [ErrorLog error], handed = None, csv_file = None\<rparr>
      | Inr invoiceContents \<Rightarrow>
          (case extract_loop e 0 invoiceContents [] [ParsedInvoices (length invoiceContents)] of
             (extractedData, out) \<Rightarrow>
               (case writeToCSV e extractedData (outputPath e) of
                  Inl error \<Rightarrow>
                    \<lparr>console = out @ [ErrorLog error], handed = Some extractedData,
                     csv_file = None\<rparr>
                | Inr rows \<Rightarrow>
                    \<lparr>console = out @ [CsvWritten (outputPath e)], handed = Some extractedData,
                     csv_file = Some (outputPath e, rows)\<rparr>)))"

subsection \<open>The vocabulary of the properties\<close>

text \<open>
  What each document's extraction gave, in loader order: the document with the result
  of \<open>extractInvoiceData\<close> on its text. \<open>i\<close> is the number of the first call.
\<close>

fun outcomes :: "env \<Rightarrow> nat \<Rightarrow> invoice list \<Rightarrow> (invoice \<times> (js_error + jsobject)) list" where
  "outcomes e i [] = []"
| "outcomes e i (d # ds) = (d, fst (extractInvoiceData e i (content d))) # outcomes e (Suc i) ds"

text \<open>The documents whose extraction returned, with the object returned.\<close>

definition successes :: "(invoice \<times> (js_error + jsobject)) list \<Rightarrow> (invoice \<times> jsobject) list" where
  "successes os = [(d, data). (d, Inr data) \<leftarrow> os]"

text \<open>The documents whose extraction threw, with the error thrown.\<close>

definition failures :: "(invoice \<times> (js_error + jsobject)) list \<Rightarrow> (invoice \<times> js_error) list" where
  "failures os = [(d, err). (d, Inl err) \<leftarrow> os]"

text \<open>The record \<open>main\<close> pushes: \<open>{...data, fileName: invoice.fileName}\<close>.\<close>

definition attach :: "invoice \<times> jsobject \<Rightarrow> jsobject" where
  "attach p = spread_with (snd p) ''fileName'' (JStr (fileName (fst p)))"

text \<open>The file names of the \<open>Processing invoice:\<close> lines, in the order printed.\<close>

definition processed :: "log_entry list \<Rightarrow> string list" where
  "processed lg = [n. ProcessingInvoice n \<leftarrow> lg]"

text \<open>The errors of the \<open>Error extracting invoice data:\<close> lines, in the order printed.\<close>

definition logged_errors :: "log_entry list \<Rightarrow> js_error list" where
  "logged_errors lg = [err. ErrorExtracting err \<leftarrow> lg]"

text \<open>
  The contract of the generation call that the program relies on: an object it returns
  conforms to the schema of the request.
\<close>

definition validating :: "env \<Rightarrow> bool" where
  "validating e = (\<forall>i req obj. generateObject e i req = Inr obj \<longrightarrow> conforms (schema req) obj)"


subsection \<open>Test doubles\<close>

text \<open>
  Concrete objects and environments on which the theorems are evaluated. The fake
  generation call answers call \<open>i\<close> with \<open>answers i\<close>, when that object conforms to
  the schema of the request, and fails otherwise. The fake file system lists \<open>files\<close>,
  reads every file as its own path, and fails to extract the text of the buffers in
  \<open>corrupt\<close>.
\<close>

definition good_object :: jsobject where
  "good_object =
     [(''invoiceNumber'', JStr ''INV-001''), (''issueDate'', JStr ''2024-01-05''),
      (''companyName'', JStr ''Acme''), (''companyAddress'', JStr ''1 Main St''),
      (''dueDate'', JStr ''2024-02-05''), (''totalAmount'', JNum 150),
      (''currency'', JStr ''EUR''), (''customerName'', JStr ''Bob''),
      (''customerAddress'', JStr ''2 Side St''), (''taxes'', JNum 0)]"

definition fake_generate :: "(nat \<Rightarrow> jsobject option) \<Rightarrow> nat \<Rightarrow> gen_request \<Rightarrow> js_error + jsobject" where
  "fake_generate answers i req =
     (case answers i of
        None \<Rightarrow> Inl (JsError ''timeout'')
      | Some obj \<Rightarrow>
          if conforms (schema req) obj then Inr obj else Inl (JsError ''No object generated''))"

definition test_env :: "string list \<Rightarrow> string list \<Rightarrow> (nat \<Rightarrow> jsobject option) \<Rightarrow> js_error option \<Rightarrow> env" where
  "test_env files corrupt answers stream =
     \<lparr>dirname = ''/app/src'',
      path_join = (\<lambda>parts. case parts of [] \<Rightarrow> ''.'' | p # ps \<Rightarrow> p @ concat (map (\<lambda>q. ''/'' @ q) ps)),
      readdir = (\<lambda>d. Inr files),
      readFile = (\<lambda>p. Inr p),
      pdf = (\<lambda>buf. if buf \<in> set corrupt then Inl (JsError ''Invalid PDF structure'') else Inr buf),
      generateObject = fake_generate answers,
      createWriteStream = (\<lambda>p. stream)\<rparr>"

definition test_doc :: "string \<Rightarrow> invoice" where
  "test_doc file =
     \<lparr>content = ''/app/src/../invoices/'' @ file, fileName = file,
      filePath = ''/app/src/../invoices/'' @ file\<rparr>"

definition env_mixed :: env where
  "env_mixed =
     test_env [''b.pdf'', ''notes.txt'', ''A.PDF''] []
       (\<lambda>i. if i = 0 then Some good_object else None) None"




text \<open>
  Three PDF files; only the second generation call returns an object.
\<close>

definition env_second_only :: env where
  "env_second_only =
     test_env [''a.pdf'', ''b.pdf'', ''c.pdf''] []
       (\<lambda>i. if i = 1 then Some good_object else None) None"

text \<open>
  An answer of the generation service that has a \<open>fileName\<close> key of its own.
\<close>

definition named_object :: jsobject where
  "named_object = (''fileName'', JStr ''model.pdf'') # good_object"

definition env_named :: env where
  "env_named = test_env [''a.pdf''] [] (\<lambda>i. Some named_object) None"

text \<open>
  The lexicographic order on strings, by character code.
\<close>

fun str_le :: "string \<Rightarrow> string \<Rightarrow> bool" where
  "str_le [] ys = True"
| "str_le (x # xs) [] = False"
| "str_le (x # xs) (y # ys) = ((of_char x :: nat) < of_char y \<or> (x = y \<and> str_le xs ys))"

text \<open>
  A directory whose listing is not in lexicographic order.
\<close>

definition env_unsorted :: env where
  "env_unsorted = test_env [''b.pdf'', ''README.md'', ''a.pdf''] [] (\<lambda>i. None) None"

text \<open>
  An answer with a negative tax amount.
\<close>

definition negative_taxes_object :: jsobject where
  "negative_taxes_object =
     [(''invoiceNumber'', JStr ''CN-7''), (''issueDate'', JStr ''2024-03-01''),
      (''companyName'', JStr ''Acme''), (''companyAddress'', JStr ''1 Main St''),
      (''dueDate'', JStr ''2024-04-01''), (''totalAmount'', JNum 40),
      (''currency'', JStr ''EUR''), (''customerName'', JStr ''Bob''),
      (''customerAddress'', JStr ''2 Side St''), (''taxes'', JNum (- 5))]"

definition env_negative_taxes :: env where
  "env_negative_taxes = test_env [''a.pdf''] [] (\<lambda>i. Some negative_taxes_object) None"

text \<open>
  An answer whose invoice number holds \<open>#\<close> and \<open>*\<close>.
\<close>

definition marked_number_object :: jsobject where
  "marked_number_object =
     [(''invoiceNumber'', JStr ''#12*''), (''issueDate'', JStr ''2024-03-01''),
      (''companyName'', JStr ''Acme''), (''companyAddress'', JStr ''1 Main St''),
      (''dueDate'', JStr ''2024-04-01''), (''totalAmount'', JNum 40),
      (''currency'', JStr ''EUR''), (''customerName'', JStr ''Bob''),
      (''customerAddress'', JStr ''2 Side St''), (''taxes'', JNum 0)]"

definition env_marked_number :: env where
  "env_marked_number = test_env [''a.pdf''] [] (\<lambda>i. Some marked_number_object) None"


subsection \<open>The retry loop of the generation call\<close>







section \<open>Lemmas\<close>

lemma get_prop_spread_with:
  "get_prop (spread_with obj k v) k' = (if k' = k then Some v else get_prop obj k')"
  by (induction obj) (auto simp: get_prop_def)

lemma successes_Nil: "successes [] = []"
  by (simp add: successes_def)

lemma successes_Cons:
  "successes ((d, r) # os) = (case r of Inl err \<Rightarrow> [] | Inr data \<Rightarrow> [(d, data)]) @ successes os"
  by (simp add: successes_def split: sum.splits)

lemma failures_Nil: "failures [] = []"
  by (simp add: failures_def)

lemma failures_Cons:
  "failures ((d, r) # os) = (case r of Inl err \<Rightarrow> [(d, err)] | Inr data \<Rightarrow> []) @ failures os"
  by (simp add: failures_def split: sum.splits)

lemma processed_append: "processed (xs @ ys) = processed xs @ processed ys"
  by (simp add: processed_def)

lemma logged_errors_append: "logged_errors (xs @ ys) = logged_errors xs @ logged_errors ys"
  by (simp add: logged_errors_def)

lemma outcomes_docs: "map fst (outcomes e i docs) = docs"
  by (induction docs arbitrary: i) auto

lemma extract_loop_batch:
  "fst (extract_loop e i docs acc out) = acc @ map attach (successes (outcomes e i docs))"
  by (induction docs arbitrary: i acc out)
     (auto simp: successes_Nil successes_Cons attach_def extractInvoiceData_def
           split: sum.splits prod.splits)

lemma extract_loop_processed:
  "processed (snd (extract_loop e i docs acc out)) = processed out @ map fileName docs"
  by (induction docs arbitrary: i acc out)
     (auto simp: processed_append processed_def extractInvoiceData_def
           split: sum.splits prod.splits)

lemma extract_loop_errors:
  "logged_errors (snd (extract_loop e i docs acc out)) =
     logged_errors out @ concat (map (\<lambda>(d, err). [err, err]) (failures (outcomes e i docs)))"
  by (induction docs arbitrary: i acc out)
     (auto simp: logged_errors_append logged_errors_def failures_Nil failures_Cons
                 extractInvoiceData_def
           split: sum.splits prod.splits)

lemma length_successes_failures:
  "length (successes os) + length (failures os) = length os"
  by (induction os) (auto simp: successes_Nil successes_Cons failures_Nil failures_Cons split: sum.splits)

lemma read_loop_names:
  "read_loop e files acc = Inr docs \<Longrightarrow> map fileName docs = map fileName acc @ files"
  by (induction files arbitrary: acc) (auto split: sum.splits)


lemma main_handed:
  "readInvoices e = Inr docs \<Longrightarrow>
     handed (main e) = Some (map attach (successes (outcomes e 0 docs)))"
  using extract_loop_batch [of e 0 docs "[]" "[ParsedInvoices (length docs)]"]
  by (auto simp: main_def split: sum.splits prod.splits)

lemma conforms_attach:
  "conforms invoiceSchema data \<Longrightarrow> conforms invoiceSchema (attach (d, data))"
  by (simp add: conforms_def invoiceSchema_def field_ok_def attach_def get_prop_spread_with)

lemma spread_good_object:
  "spread_with good_object ''fileName'' v = good_object @ [(''fileName'', v)]"
  by (simp add: good_object_def)

lemma validating_test_env: "validating (test_env files corrupt answers stream)"
  by (simp add: validating_def test_env_def fake_generate_def split: option.splits)

lemma conforms_good_object: "conforms invoiceSchema good_object"
  by (simp add: conforms_def invoiceSchema_def field_ok_def get_prop_def good_object_def)

lemma is_pdf_simps:
  "is_pdf ''b.pdf''" "is_pdf ''a.pdf''" "is_pdf ''A.PDF''" "\<not> is_pdf ''notes.txt''" "\<not> is_pdf ''.pdf''"
  by (simp_all add: is_pdf_def extname_def toLowerCase_def lower_char_def)

lemma test_env_sel:
  "dirname (test_env files corrupt answers stream) = ''/app/src''"
  "readdir (test_env files corrupt answers stream) d = Inr files"
  "readFile (test_env files corrupt answers stream) p = Inr p"
  "pdf (test_env files corrupt answers stream) buf =
     (if buf \<in> set corrupt then Inl (JsError ''Invalid PDF structure'') else Inr buf)"
  "generateObject (test_env files corrupt answers stream) = fake_generate answers"
  "createWriteStream (test_env files corrupt answers stream) p = stream"
  "invoiceDir (test_env files corrupt answers stream) = ''/app/src/../invoices''"
  "outputPath (test_env files corrupt answers stream) = ''/app/src/../invoice_data.csv''"
  "path_join (test_env files corrupt answers stream) [''/app/src/../invoices'', file] = ''/app/src/../invoices/'' @ file"
  by (simp_all add: test_env_def invoiceDir_def outputPath_def)

lemma readInvoices_mixed: "readInvoices env_mixed = Inr [test_doc ''b.pdf'', test_doc ''A.PDF'']"
  by (simp add: readInvoices_def env_mixed_def test_env_sel is_pdf_simps test_doc_def)

lemma test_doc_sel:
  "content (test_doc file) = ''/app/src/../invoices/'' @ file"
  "fileName (test_doc file) = file"
  "filePath (test_doc file) = ''/app/src/../invoices/'' @ file"
  by (simp_all add: test_doc_def)

lemma main_console:
  "readInvoices e = Inr docs \<Longrightarrow>
     processed (console (main e)) = map fileName docs
     \<and> logged_errors (console (main e)) =
         concat (map (\<lambda>(d, err). [err, err]) (failures (outcomes e 0 docs)))"
  using extract_loop_processed [of e 0 docs "[]" "[ParsedInvoices (length docs)]"]
        extract_loop_errors [of e 0 docs "[]" "[ParsedInvoices (length docs)]"]
  by (auto simp: main_def processed_append logged_errors_append processed_def logged_errors_def
           split: sum.splits prod.splits)

lemma readInvoices_second_only:
  "readInvoices env_second_only = Inr [test_doc ''a.pdf'', test_doc ''b.pdf'', test_doc ''c.pdf'']"
  by (simp add: readInvoices_def env_second_only_def test_env_sel is_pdf_def extname_def
        toLowerCase_def lower_char_def test_doc_def)

lemma outcomes_second_only:
  "outcomes env_second_only 0 [test_doc ''a.pdf'', test_doc ''b.pdf'', test_doc ''c.pdf''] =
     [(test_doc ''a.pdf'', Inl (JsError ''timeout'')),
      (test_doc ''b.pdf'', Inr good_object),
      (test_doc ''c.pdf'', Inl (JsError ''timeout''))]"
  by (simp add: extractInvoiceData_def env_second_only_def test_env_sel
        fake_generate_def request_def conforms_good_object)

lemma length_outcomes: "length (outcomes e i docs) = length docs"
  by (induction docs arbitrary: i) auto

lemma stringify_no_header:
  "stringify csv_options records = map (stringify_row csv_options) records"
  by (simp add: stringify_def csv_options_def)

lemma stringify_row_csvRow:
  "stringify_row csv_options (csvRow row) =
     [Some (fileName_or_empty row), get_prop row ''invoiceNumber'',
      get_prop row ''issueDate'', get_prop row ''companyName'',
      get_prop row ''companyAddress'', get_prop row ''dueDate'',
      get_prop row ''totalAmount'', get_prop row ''currency'',
      get_prop row ''customerName'', get_prop row ''customerAddress'',
      get_prop row ''taxes'']"
  by (simp add: csv_options_def stringify_row_def csvRow_def get_prop_spread_with)

lemma length_stringify: "length (stringify csv_options records) = length records"
  by (simp add: stringify_def csv_options_def)

lemma main_csv_file:
  assumes "readInvoices e = Inr docs"
  shows "csv_file (main e) =
           (case createWriteStream e (outputPath e) of
              Some err \<Rightarrow> None
            | None \<Rightarrow>
                Some (outputPath e,
                      stringify csv_options (map csvRow (map attach (successes (outcomes e 0 docs))))))"
  using assms extract_loop_batch [of e 0 docs "[]" "[ParsedInvoices (length docs)]"]
  by (auto simp: main_def writeToCSV_def split: sum.splits prod.splits option.splits)

lemma outcomes_mixed:
  "outcomes env_mixed 0 [test_doc ''b.pdf'', test_doc ''A.PDF''] =
     [(test_doc ''b.pdf'', Inr good_object), (test_doc ''A.PDF'', Inl (JsError ''timeout''))]"
  by (simp add: extractInvoiceData_def env_mixed_def test_env_sel
        fake_generate_def request_def conforms_good_object)

lemma csv_file_mixed:
  "csv_file (main env_mixed) =
     Some (''/app/src/../invoice_data.csv'',
           [[Some (JStr ''b.pdf''), Some (JStr ''INV-001''), Some (JStr ''2024-01-05''),
             Some (JStr ''Acme''), Some (JStr ''1 Main St''), Some (JStr ''2024-02-05''),
             Some (JNum 150), Some (JStr ''EUR''), Some (JStr ''Bob''),
             Some (JStr ''2 Side St''), Some (JNum 0)]])"
  unfolding main_csv_file [OF readInvoices_mixed] outcomes_mixed
  by (simp add: env_mixed_def test_env_sel successes_Nil successes_Cons attach_def
        spread_good_object test_doc_sel stringify_no_header stringify_row_csvRow
        fileName_or_empty_def get_prop_def good_object_def)

lemma readInvoices_named: "readInvoices env_named = Inr [test_doc ''a.pdf'']"
  by (simp add: readInvoices_def env_named_def test_env_sel is_pdf_simps test_doc_def)

lemma conforms_named_object: "conforms invoiceSchema named_object"
  by (simp add: conforms_def invoiceSchema_def field_ok_def get_prop_def good_object_def named_object_def)

lemma outcomes_named:
  "outcomes env_named 0 [test_doc ''a.pdf''] = [(test_doc ''a.pdf'', Inr named_object)]"
  by (simp add: extractInvoiceData_def env_named_def test_env_sel
        fake_generate_def request_def conforms_named_object)

lemma read_loop_docs:
  assumes "read_loop e files acc = Inr docs"
    and "list_all (\<lambda>d. filePath d = path_join e [invoiceDir e, fileName d]
            \<and> (\<exists>buf. readFile e (filePath d) = Inr buf \<and> pdf e buf = Inr (content d))) acc"
  shows "list_all (\<lambda>d. filePath d = path_join e [invoiceDir e, fileName d]
            \<and> (\<exists>buf. readFile e (filePath d) = Inr buf \<and> pdf e buf = Inr (content d))) docs"
  using assms
  by (induction files arbitrary: acc) (auto split: sum.splits)

lemma successes_conform:
  assumes "validating e" and "(d, data) \<in> set (successes (outcomes e i ds))"
  shows "conforms invoiceSchema data"
  using assms(2)
proof (induction ds arbitrary: i)
  case Nil
  then show ?case by (simp add: successes_Nil)
next
  case (Cons x xs)
  show ?case
  proof (cases "generateObject e i (request (content x))")
    case (Inl err)
    with Cons show ?thesis
      by (auto simp: successes_Cons extractInvoiceData_def)
  next
    case (Inr obj)
    with assms(1) have "conforms (schema (request (content x))) obj"
      by (auto simp: validating_def)
    then have "conforms invoiceSchema obj"
      by (simp add: request_def)
    with Cons Inr show ?thesis
      by (auto simp: successes_Cons extractInvoiceData_def)
  qed
qed

lemma batch_conforms:
  assumes "validating e"
  shows "list_all (conforms invoiceSchema) (map attach (successes (outcomes e i docs)))"
  unfolding list_all_iff using successes_conform [OF assms] conforms_attach by fastforce

lemma conforms_taxes:
  assumes "conforms invoiceSchema r"
  shows "\<exists>n. get_prop r ''taxes'' = Some (JNum n)"
proof -
  from assms have "field_ok r \<lparr>fname = ''taxes'', ftype = ZNumber,
      describe = ''The total amount of taxes applied to the invoice, just return 0 if no taxes are applied''\<rparr>"
    by (simp add: conforms_def invoiceSchema_def)
  then obtain v where v: "get_prop r ''taxes'' = Some v" "has_type ZNumber v"
    by (auto simp: field_ok_def split: option.splits)
  then show ?thesis by (cases v) auto
qed

lemma conforms_spread_same_type:
  assumes "conforms sch obj" and "\<forall>f \<in> set sch. fname f = k \<longrightarrow> has_type (ftype f) v"
  shows "conforms sch (spread_with obj k v)"
  using assms
  by (auto simp: conforms_def list_all_iff field_ok_def get_prop_spread_with split: option.splits)

lemma conforms_negative_taxes_object: "conforms invoiceSchema negative_taxes_object"
  by (simp add: conforms_def invoiceSchema_def field_ok_def get_prop_def negative_taxes_object_def)

lemma conforms_marked_number_object: "conforms invoiceSchema marked_number_object"
  by (simp add: conforms_def invoiceSchema_def field_ok_def get_prop_def marked_number_object_def)

lemma readInvoices_negative_taxes: "readInvoices env_negative_taxes = Inr [test_doc ''a.pdf'']"
  by (simp add: readInvoices_def env_negative_taxes_def test_env_sel is_pdf_simps test_doc_def)

lemma outcomes_negative_taxes:
  "outcomes env_negative_taxes 0 [test_doc ''a.pdf''] = [(test_doc ''a.pdf'', Inr negative_taxes_object)]"
  by (simp add: extractInvoiceData_def env_negative_taxes_def test_env_sel
        fake_generate_def request_def conforms_negative_taxes_object)

lemma readInvoices_marked_number: "readInvoices env_marked_number = Inr [test_doc ''a.pdf'']"
  by (simp add: readInvoices_def env_marked_number_def test_env_sel is_pdf_simps test_doc_def)

lemma outcomes_marked_number:
  "outcomes env_marked_number 0 [test_doc ''a.pdf''] = [(test_doc ''a.pdf'', Inr marked_number_object)]"
  by (simp add: extractInvoiceData_def env_marked_number_def test_env_sel
        fake_generate_def request_def conforms_marked_number_object)


















lemma main_output:
  assumes "readInvoices e = Inr docs"
  shows "csv_file (main e) =
           (case writeToCSV e (map attach (successes (outcomes e 0 docs))) (outputPath e) of
              Inl err \<Rightarrow> None
            | Inr rows \<Rightarrow> Some (outputPath e, rows))
       \<and> last (console (main e)) =
           (case writeToCSV e (map attach (successes (outcomes e 0 docs))) (outputPath e) of
              Inl err \<Rightarrow> ErrorLog err
            | Inr rows \<Rightarrow> CsvWritten (outputPath e))"
  using assms extract_loop_batch [of e 0 docs "[]" "[ParsedInvoices (length docs)]"]
  by (auto simp: main_def split: sum.splits prod.splits)

lemma writeToCSV_second_only:
  "writeToCSV env_second_only [good_object @ [(''fileName'', JStr ''b.pdf'')]]
      (outputPath env_second_only) =
     Inr [[Some (JStr ''b.pdf''), Some (JStr ''INV-001''), Some (JStr ''2024-01-05''),
           Some (JStr ''Acme''), Some (JStr ''1 Main St''), Some (JStr ''2024-02-05''),
           Some (JNum 150), Some (JStr ''EUR''), Some (JStr ''Bob''),
           Some (JStr ''2 Side St''), Some (JNum 0)]]"
  by (simp add: writeToCSV_def env_second_only_def test_env_sel stringify_no_header
        stringify_row_csvRow fileName_or_empty_def get_prop_def good_object_def)

section \<open>The claims\<close>

text \<open>
  C1. When the generation call keeps its contract (\<open>validating\<close>) and the documents
  are loaded, the batch handed to the writer holds one record per document whose
  extraction succeeded, none for a document whose extraction failed, and every record
  has every field of the schema with a value of the declared type.
\<close>

theorem batch_records_conform:
  assumes "validating e" and "readInvoices e = Inr docs"
  shows "handed (main e) = Some (map attach (successes (outcomes e 0 docs)))
       \<and> list_all (conforms invoiceSchema) (map attach (successes (outcomes e 0 docs)))"
  using main_handed [OF assms(2)] batch_conforms [OF assms(1), of 0 docs] by simp

text \<open>
  Two documents, the first extracted and the second failing: the batch is the one
  conforming record.
\<close>

theorem batch_records_conform_witness:
  "validating env_mixed
   \<and> readInvoices env_mixed = Inr [test_doc ''b.pdf'', test_doc ''A.PDF'']
   \<and> handed (main env_mixed) = Some [good_object @ [(''fileName'', JStr ''b.pdf'')]]
   \<and> conforms invoiceSchema (good_object @ [(''fileName'', JStr ''b.pdf'')])"
proof -
  have v: "validating env_mixed"
    by (simp add: env_mixed_def validating_test_env)
  have s: "map attach (successes (outcomes env_mixed 0 [test_doc ''b.pdf'', test_doc ''A.PDF'']))
             = [good_object @ [(''fileName'', JStr ''b.pdf'')]]"
    by (simp add: successes_Nil successes_Cons extractInvoiceData_def env_mixed_def test_env_sel
          fake_generate_def request_def conforms_good_object attach_def test_doc_def spread_good_object)
  from batch_records_conform [OF v readInvoices_mixed] v readInvoices_mixed s
  show ?thesis by simp
qed




text \<open>
  C3. Once the documents are loaded, whatever the generation calls answer: every
  document is processed, in loader order; the error of each failed extraction is printed
  (by \<open>extractInvoiceData\<close> and again by \<open>main\<close>); \<open>writeToCSV\<close> is called with the
  records of the documents that succeeded, the failed ones left out; and the output
  file and the last line of the run are what that call of \<open>writeToCSV\<close> on the batch
  and the output path gives.
\<close>

theorem failure_never_aborts:
  assumes "readInvoices e = Inr docs"
  shows "processed (console (main e)) = map fileName docs
       \<and> logged_errors (console (main e)) =
           concat (map (\<lambda>(d, err). [err, err]) (failures (outcomes e 0 docs)))
       \<and> handed (main e) = Some (map attach (successes (outcomes e 0 docs)))
       \<and> csv_file (main e) =
           (case writeToCSV e (map attach (successes (outcomes e 0 docs))) (outputPath e) of
              Inl err \<Rightarrow> None
            | Inr rows \<Rightarrow> Some (outputPath e, rows))
       \<and> last (console (main e)) =
           (case writeToCSV e (map attach (successes (outcomes e 0 docs))) (outputPath e) of
              Inl err \<Rightarrow> ErrorLog err
            | Inr rows \<Rightarrow> CsvWritten (outputPath e))"
  using main_console [OF assms] main_handed [OF assms] main_output [OF assms] by simp

text \<open>
  Three documents of which the first and the last fail: all three are processed, both
  errors are printed, the writer gets the record of the second, and the output file
  has its row.
\<close>

theorem failure_never_aborts_witness:
  "readInvoices env_second_only = Inr [test_doc ''a.pdf'', test_doc ''b.pdf'', test_doc ''c.pdf'']
   \<and> processed (console (main env_second_only)) = [''a.pdf'', ''b.pdf'', ''c.pdf'']
   \<and> logged_errors (console (main env_second_only)) =
        [JsError ''timeout'', JsError ''timeout'', JsError ''timeout'', JsError ''timeout'']
   \<and> handed (main env_second_only) = Some [good_object @ [(''fileName'', JStr ''b.pdf'')]]
   \<and> csv_file (main env_second_only) =
        Some (''/app/src/../invoice_data.csv'',
              [[Some (JStr ''b.pdf''), Some (JStr ''INV-001''), Some (JStr ''2024-01-05''),
                Some (JStr ''Acme''), Some (JStr ''1 Main St''), Some (JStr ''2024-02-05''),
                Some (JNum 150), Some (JStr ''EUR''), Some (JStr ''Bob''),
                Some (JStr ''2 Side St''), Some (JNum 0)]])
   \<and> last (console (main env_second_only)) = CsvWritten ''/app/src/../invoice_data.csv''"
proof -
  have batch: "map attach (successes
      [(test_doc ''a.pdf'', Inl (JsError ''timeout'')), (test_doc ''b.pdf'', Inr good_object),
       (test_doc ''c.pdf'', Inl (JsError ''timeout''))]) =
      [good_object @ [(''fileName'', JStr ''b.pdf'')]]"
    by (simp add: successes_Nil successes_Cons attach_def spread_good_object test_doc_sel)
  have path: "outputPath env_second_only = ''/app/src/../invoice_data.csv''"
    by (simp add: env_second_only_def test_env_sel)
  note run = failure_never_aborts [OF readInvoices_second_only,
      unfolded outcomes_second_only batch writeToCSV_second_only]
  from run readInvoices_second_only show ?thesis
    by (simp add: failures_Nil failures_Cons test_doc_sel path)
qed

text \<open>
  C4. When the output stream finishes, the rows written are exactly one row per record,
  in the order of the records, each with the eleven columns \<open>fileName\<close>,
  \<open>invoiceNumber\<close>, \<open>issueDate\<close>, \<open>companyName\<close>, \<open>companyAddress\<close>, \<open>dueDate\<close>,
  \<open>totalAmount\<close>, \<open>currency\<close>, \<open>customerName\<close>, \<open>customerAddress\<close>, \<open>taxes\<close> in
  this order, whatever the order of the keys in the record; no header row comes first.
\<close>

theorem one_row_per_record:
  assumes "createWriteStream e p = None"
  shows "writeToCSV e data p =
           Inr (map (\<lambda>row. [Some (fileName_or_empty row), get_prop row ''invoiceNumber'',
                             get_prop row ''issueDate'', get_prop row ''companyName'',
                             get_prop row ''companyAddress'', get_prop row ''dueDate'',
                             get_prop row ''totalAmount'', get_prop row ''currency'',
                             get_prop row ''customerName'', get_prop row ''customerAddress'',
                             get_prop row ''taxes'']) data)"
  using assms by (simp add: writeToCSV_def stringify_no_header stringify_row_csvRow)

text \<open>
  Two records, the first with its keys in another order and the second with one key
  only: two rows of eleven cells.
\<close>

theorem one_row_per_record_witness:
  "createWriteStream env_mixed ''out.csv'' = None
   \<and> writeToCSV env_mixed
        [[(''taxes'', JNum 0), (''invoiceNumber'', JStr ''INV-001''), (''fileName'', JStr ''b.pdf'')],
         [(''invoiceNumber'', JStr ''INV-002'')]] ''out.csv'' =
       Inr [[Some (JStr ''b.pdf''), Some (JStr ''INV-001''), None, None, None, None, None, None,
             None, None, Some (JNum 0)],
            [Some (JStr ''''), Some (JStr ''INV-002''), None, None, None, None, None, None,
             None, None, None]]"
proof -
  have h: "createWriteStream env_mixed ''out.csv'' = None"
    by (simp add: env_mixed_def test_env_sel)
  from one_row_per_record [OF h] h show ?thesis
    by (simp add: fileName_or_empty_def get_prop_def)
qed

text \<open>
  C5, as amended. When \<open>readInvoices\<close> returns, its documents are exactly the files of
  the directory listing whose extension, in lower case, is \<open>.pdf\<close>, in the order of the
  listing: nothing is sorted. Each document has the path of its file and the text
  extracted from what was read there.
\<close>

theorem loader_returns_pdf_files:
  assumes "readdir e (invoiceDir e) = Inr files" and "readInvoices e = Inr docs"
  shows "map fileName docs = filter (\<lambda>file. toLowerCase (extname file) = ''.pdf'') files
       \<and> list_all (\<lambda>d. filePath d = path_join e [invoiceDir e, fileName d]
            \<and> (\<exists>buf. readFile e (filePath d) = Inr buf \<and> pdf e buf = Inr (content d))) docs"
proof -
  from assms have loop: "read_loop e (filter is_pdf files) [] = Inr docs"
    by (simp add: readInvoices_def)
  have "is_pdf = (\<lambda>file. toLowerCase (extname file) = ''.pdf'')"
    by (simp add: fun_eq_iff is_pdf_def)
  with read_loop_names [OF loop] read_loop_docs [OF loop] show ?thesis
    by simp
qed

text \<open>
  A listing with \<open>b.pdf\<close>, \<open>notes.txt\<close> and \<open>A.PDF\<close>: the two PDF files are
  returned, in this order.
\<close>

theorem loader_returns_pdf_files_witness:
  "readdir env_mixed (invoiceDir env_mixed) = Inr [''b.pdf'', ''notes.txt'', ''A.PDF'']
   \<and> readInvoices env_mixed = Inr [test_doc ''b.pdf'', test_doc ''A.PDF'']
   \<and> filter (\<lambda>file. toLowerCase (extname file) = ''.pdf'') [''b.pdf'', ''notes.txt'', ''A.PDF'']
        = [''b.pdf'', ''A.PDF'']
   \<and> filePath (test_doc ''A.PDF'') = ''/app/src/../invoices/A.PDF''"
proof -
  have h: "readdir env_mixed (invoiceDir env_mixed) = Inr [''b.pdf'', ''notes.txt'', ''A.PDF'']"
    by (simp add: env_mixed_def test_env_sel)
  from loader_returns_pdf_files [OF h readInvoices_mixed] h readInvoices_mixed
  show ?thesis
    by (simp add: test_doc_sel)
qed

text \<open>
  C5 as stated fails: the documents come in the order of the listing, which need not be
  lexicographic.
\<close>

theorem loader_order_counterexample:
  "readdir env_unsorted (invoiceDir env_unsorted) = Inr [''b.pdf'', ''README.md'', ''a.pdf'']
   \<and> readInvoices env_unsorted = Inr [test_doc ''b.pdf'', test_doc ''a.pdf'']
   \<and> map fileName [test_doc ''b.pdf'', test_doc ''a.pdf''] = [''b.pdf'', ''a.pdf'']
   \<and> \<not> sorted_wrt str_le [''b.pdf'', ''a.pdf'']"
  by (simp add: readInvoices_def env_unsorted_def test_env_sel is_pdf_def extname_def
        toLowerCase_def lower_char_def test_doc_def)

text \<open>
  C6. In a run that writes its output, the number of rows is the number of records in
  the batch, which is the number of successful extractions and at most the number of
  documents; it equals the number of documents exactly when no extraction failed.
\<close>

theorem row_count:
  assumes "readInvoices e = Inr docs" and "csv_file (main e) = Some (p, rows)"
  shows "handed (main e) = Some (map attach (successes (outcomes e 0 docs)))
       \<and> length rows = length (successes (outcomes e 0 docs))
       \<and> length rows \<le> length docs
       \<and> (length rows = length docs) = (failures (outcomes e 0 docs) = [])"
proof -
  from assms main_csv_file [OF assms(1)]
  have "rows = stringify csv_options (map csvRow (map attach (successes (outcomes e 0 docs))))"
    by (auto split: option.splits)
  then have len: "length rows = length (successes (outcomes e 0 docs))"
    by (simp add: length_stringify)
  have total: "length (successes (outcomes e 0 docs)) + length (failures (outcomes e 0 docs)) = length docs"
    by (simp add: length_successes_failures length_outcomes)
  from len total main_handed [OF assms(1)] show ?thesis by auto
qed

text \<open>
  Two documents, one failed extraction: one row.
\<close>

theorem row_count_witness:
  "readInvoices env_mixed = Inr [test_doc ''b.pdf'', test_doc ''A.PDF'']
   \<and> length (snd (the (csv_file (main env_mixed)))) = 1
   \<and> handed (main env_mixed) = Some [good_object @ [(''fileName'', JStr ''b.pdf'')]]
   \<and> failures (outcomes env_mixed 0 [test_doc ''b.pdf'', test_doc ''A.PDF'']) =
        [(test_doc ''A.PDF'', JsError ''timeout'')]"
proof -
  note run = row_count [OF readInvoices_mixed csv_file_mixed, unfolded outcomes_mixed]
  from run readInvoices_mixed show ?thesis
    unfolding outcomes_mixed
    by (simp add: csv_file_mixed successes_Nil successes_Cons failures_Nil
          failures_Cons attach_def spread_good_object test_doc_sel)
qed

text \<open>
  C7, as amended. When the generation call keeps its contract, every record of the
  batch has a \<open>taxes\<close> field that is a number. The schema declares \<open>taxes\<close> as a
  number and nothing more: a conforming object conforms with any number there, of any
  sign. That the number is 0 when no taxes are applied is asked of the service in the
  description of the field.
\<close>

theorem taxes_is_a_number:
  assumes "validating e" and "readInvoices e = Inr docs" and "conforms invoiceSchema obj"
  shows "(\<exists>b. handed (main e) = Some b
            \<and> list_all (\<lambda>r. \<exists>n. get_prop r ''taxes'' = Some (JNum n)) b)
       \<and> conforms invoiceSchema (spread_with obj ''taxes'' (JNum n))
       \<and> map ftype (filter (\<lambda>f. fname f = ''taxes'') invoiceSchema) = [ZNumber]"
proof -
  have "list_all (\<lambda>r. \<exists>n. get_prop r ''taxes'' = Some (JNum n))
          (map attach (successes (outcomes e 0 docs)))"
    using batch_conforms [OF assms(1), of 0 docs] conforms_taxes
    unfolding list_all_iff by blast
  with main_handed [OF assms(2)]
  have first: "\<exists>b. handed (main e) = Some b
            \<and> list_all (\<lambda>r. \<exists>n. get_prop r ''taxes'' = Some (JNum n)) b"
    by simp
  have second: "conforms invoiceSchema (spread_with obj ''taxes'' (JNum n))"
    by (rule conforms_spread_same_type [OF assms(3)]) (simp add: invoiceSchema_def)
  have third: "map ftype (filter (\<lambda>f. fname f = ''taxes'') invoiceSchema) = [ZNumber]"
    by (simp add: invoiceSchema_def)
  from first second third show ?thesis by simp
qed

text \<open>
  A run whose record has a negative tax amount, and a conforming object that still
  conforms with \<open>taxes\<close> set to \<open>-5\<close>.
\<close>

theorem taxes_is_a_number_witness:
  "validating env_negative_taxes
   \<and> readInvoices env_negative_taxes = Inr [test_doc ''a.pdf'']
   \<and> conforms invoiceSchema good_object
   \<and> (\<exists>b. handed (main env_negative_taxes) = Some b
         \<and> list_all (\<lambda>r. \<exists>n. get_prop r ''taxes'' = Some (JNum n)) b)
   \<and> conforms invoiceSchema (spread_with good_object ''taxes'' (JNum (- 5)))"
proof -
  have v: "validating env_negative_taxes"
    by (simp add: env_negative_taxes_def validating_test_env)
  from taxes_is_a_number [OF v readInvoices_negative_taxes conforms_good_object, of "- 5"]
    v readInvoices_negative_taxes conforms_good_object
  show ?thesis by simp
qed

text \<open>
  C7 as stated fails: an answer with \<open>taxes = -5\<close> conforms to the schema and its
  record is in the batch.
\<close>

theorem taxes_nonnegative_counterexample:
  "conforms invoiceSchema negative_taxes_object
   \<and> handed (main env_negative_taxes) =
       Some [negative_taxes_object @ [(''fileName'', JStr ''a.pdf'')]]
   \<and> get_prop (negative_taxes_object @ [(''fileName'', JStr ''a.pdf'')]) ''taxes'' = Some (JNum (- 5))
   \<and> (- 5 :: real) < 0"
proof -
  have "handed (main env_negative_taxes) =
       Some [negative_taxes_object @ [(''fileName'', JStr ''a.pdf'')]]"
    unfolding main_handed [OF readInvoices_negative_taxes] outcomes_negative_taxes
    by (simp add: successes_Nil successes_Cons attach_def test_doc_sel negative_taxes_object_def)
  then show ?thesis
    by (simp add: conforms_negative_taxes_object) (simp add: get_prop_def negative_taxes_object_def)
qed

text \<open>
  C8, as amended. The schema declares \<open>invoiceNumber\<close> as a string and nothing more:
  a conforming object conforms with any string there. The characters to avoid are named
  in the description of the field, for the generation service. An object the call
  returns is returned by \<open>extractInvoiceData\<close> as it is.
\<close>

theorem invoiceNumber_is_any_string:
  assumes "conforms invoiceSchema obj" and "generateObject e i (request c) = Inr obj"
  shows "conforms invoiceSchema (spread_with obj ''invoiceNumber'' (JStr s))
       \<and> map ftype (filter (\<lambda>f. fname f = ''invoiceNumber'') invoiceSchema) = [ZString]
       \<and> extractInvoiceData e i c = (Inr obj, [])"
proof -
  have "conforms invoiceSchema (spread_with obj ''invoiceNumber'' (JStr s))"
    by (rule conforms_spread_same_type [OF assms(1)]) (simp add: invoiceSchema_def)
  moreover have "map ftype (filter (\<lambda>f. fname f = ''invoiceNumber'') invoiceSchema) = [ZString]"
    by (simp add: invoiceSchema_def)
  ultimately show ?thesis
    using assms(2) by (simp add: extractInvoiceData_def)
qed

text \<open>
  A conforming object still conforms with the invoice number \<open>#12*\<close>.
\<close>

theorem invoiceNumber_is_any_string_witness:
  "conforms invoiceSchema good_object
   \<and> generateObject env_mixed 0 (request ''Invoice 1'') = Inr good_object
   \<and> conforms invoiceSchema (spread_with good_object ''invoiceNumber'' (JStr ''#12*''))
   \<and> extractInvoiceData env_mixed 0 ''Invoice 1'' = (Inr good_object, [])"
proof -
  have g: "generateObject env_mixed 0 (request ''Invoice 1'') = Inr good_object"
    by (simp add: env_mixed_def test_env_sel fake_generate_def request_def conforms_good_object)
  from invoiceNumber_is_any_string [OF conforms_good_object g, of "''#12*''"]
    conforms_good_object g
  show ?thesis by simp
qed

text \<open>
  C8 as stated fails: an answer whose invoice number is \<open>#12*\<close> conforms to the schema,
  is returned by \<open>extractInvoiceData\<close>, and its record is in the batch.
\<close>

theorem forbidden_characters_counterexample:
  "conforms invoiceSchema marked_number_object
   \<and> fst (extractInvoiceData env_marked_number 0 (content (test_doc ''a.pdf''))) =
       Inr marked_number_object
   \<and> handed (main env_marked_number) =
       Some [marked_number_object @ [(''fileName'', JStr ''a.pdf'')]]
   \<and> get_prop (marked_number_object @ [(''fileName'', JStr ''a.pdf'')]) ''invoiceNumber'' =
       Some (JStr ''#12*'')"
proof -
  have "handed (main env_marked_number) =
       Some [marked_number_object @ [(''fileName'', JStr ''a.pdf'')]]"
    unfolding main_handed [OF readInvoices_marked_number] outcomes_marked_number
    by (simp add: successes_Nil successes_Cons attach_def test_doc_sel marked_number_object_def)
  moreover have "fst (extractInvoiceData env_marked_number 0 (content (test_doc ''a.pdf''))) =
       Inr marked_number_object"
    using outcomes_marked_number by simp
  ultimately show ?thesis
    by (simp add: conforms_marked_number_object) (simp add: get_prop_def marked_number_object_def)
qed




text \<open>
  C10. Every record of the batch has as \<open>fileName\<close> the file name of its document,
  whatever the returned object held under that key. The writer does not fail on a
  record: the first cell of its row is the \<open>fileName\<close> of the record, and the empty
  string when the record has none or a falsy one.
\<close>

theorem fileName_of_document:
  assumes "readInvoices e = Inr docs" and "createWriteStream e p = None"
  shows "(\<exists>b. handed (main e) = Some b
            \<and> list_all2 (\<lambda>r (d, data). get_prop r ''fileName'' = Some (JStr (fileName d)))
                 b (successes (outcomes e 0 docs)))
       \<and> (\<exists>out. writeToCSV e rows p = Inr out
            \<and> map hd out =
                map (\<lambda>row. case get_prop row ''fileName'' of
                              None \<Rightarrow> Some (JStr '''')
                            | Some v \<Rightarrow> if truthy v then Some v else Some (JStr '''')) rows)"
proof -
  have "list_all2 (\<lambda>r (d, data). get_prop r ''fileName'' = Some (JStr (fileName d)))
          (map attach (successes (outcomes e 0 docs))) (successes (outcomes e 0 docs))"
    by (auto simp: list_all2_map1 list_all2_same attach_def get_prop_spread_with)
  moreover have "map hd (stringify csv_options (map csvRow rows)) =
      map (\<lambda>row. case get_prop row ''fileName'' of
                    None \<Rightarrow> Some (JStr '''')
                  | Some v \<Rightarrow> if truthy v then Some v else Some (JStr '''')) rows"
    by (auto simp: stringify_no_header stringify_row_csvRow fileName_or_empty_def split: option.splits)
  ultimately show ?thesis
    using main_handed [OF assms(1)] assms(2) by (simp add: writeToCSV_def)
qed

text \<open>
  An answer with a \<open>fileName\<close> of its own gets the name of the document; rows
  without a \<open>fileName\<close>, or with \<open>0\<close> there, start with the empty string.
\<close>

theorem fileName_of_document_witness:
  "readInvoices env_named = Inr [test_doc ''a.pdf'']
   \<and> createWriteStream env_named ''out.csv'' = None
   \<and> get_prop named_object ''fileName'' = Some (JStr ''model.pdf'')
   \<and> map (\<lambda>r. get_prop r ''fileName'') (the (handed (main env_named))) = [Some (JStr ''a.pdf'')]
   \<and> map hd (projr (writeToCSV env_named
        [[(''invoiceNumber'', JStr ''INV-002'')], [(''fileName'', JNum 0)],
         [(''fileName'', JStr ''x.pdf'')]] ''out.csv'')) =
       [Some (JStr ''''), Some (JStr ''''), Some (JStr ''x.pdf'')]"
proof -
  have h: "createWriteStream env_named ''out.csv'' = None"
    by (simp add: env_named_def test_env_sel)
  note run = fileName_of_document [OF readInvoices_named h, unfolded outcomes_named,
      of "[[(''invoiceNumber'', JStr ''INV-002'')], [(''fileName'', JNum 0)],
           [(''fileName'', JStr ''x.pdf'')]]"]
  from run readInvoices_named h show ?thesis
    by (auto simp: successes_Nil successes_Cons test_doc_sel get_prop_def named_object_def
          list_all2_Cons2)
qed

end
